theory Spec2Isabelle
  imports Complex_Main
begin

section \<open>JavaScript values\<close>

text \<open>
  The two programs, \<^verbatim>\<open>src/server.js\<close> and \<^verbatim>\<open>src/unnamed/part_000\<close>, are Express
  applications with one liveness route and one relay route. Everything they compute on is
  a value that came out of \<^verbatim>\<open>JSON.parse\<close> (the request body, parsed by
  \<^verbatim>\<open>express.json()\<close>, and the upstream body, parsed by \<^verbatim>\<open>resp.json()\<close>), an
  environment variable, or a literal.

  A number is an IEEE double: finite, infinite (\<^verbatim>\<open>JSON.parse("1e999")\<close>) or NaN. The
  handlers never compute with numbers, they only test them for truthiness and pass them
  on, so a finite number is represented by its rational value.
\<close>

datatype jsnum = Fin rat | PosInf | NegInf | NaN

text \<open>
  An object is the list of its own properties. A parsed object has each key once, so the
  first binding of a key is its only one.
\<close>

datatype jsval =
    JUndefined
  | JNull
  | JBool bool
  | JNum jsnum
  | JStr string
  | JArr "jsval list"
  | JObj "(string \<times> jsval) list"

text \<open>\<^verbatim>\<open>ToBoolean\<close>: what \<^verbatim>\<open>!v\<close> and \<^verbatim>\<open>v || d\<close> test.\<close>

fun truthy :: "jsval \<Rightarrow> bool" where
  "truthy JUndefined = False"
| "truthy JNull = False"
| "truthy (JBool b) = b"
| "truthy (JNum n) = (n \<noteq> Fin 0 \<and> n \<noteq> NaN)"
| "truthy (JStr s) = (s \<noteq> [])"
| "truthy (JArr xs) = True"
| "truthy (JObj fs) = True"

text \<open>What \<^verbatim>\<open>?.\<close> and \<^verbatim>\<open>??\<close> test.\<close>

fun nullish :: "jsval \<Rightarrow> bool" where
  "nullish JUndefined = True"
| "nullish JNull = True"
| "nullish v = False"

fun isArray :: "jsval \<Rightarrow> bool" where
  "isArray (JArr xs) = True"
| "isArray v = False"

text \<open>
  \<^verbatim>\<open>v.p\<close> on a value that is neither null nor undefined, for the property names the
  handlers read: \<^verbatim>\<open>messages\<close>, \<^verbatim>\<open>choices\<close>, \<^verbatim>\<open>message\<close> and \<^verbatim>\<open>content\<close>.
  None of them is an index, \<^verbatim>\<open>length\<close> or a member of a built-in prototype, so on
  an array, a string, a number or a boolean the read gives undefined, and on an object it
  gives the own property or undefined.
\<close>

fun own_prop :: "jsval \<Rightarrow> string \<Rightarrow> jsval" where
  "own_prop (JObj fs) p = (case map_of fs p of None \<Rightarrow> JUndefined | Some v \<Rightarrow> v)"
| "own_prop v p = JUndefined"

text \<open>
  \<^verbatim>\<open>v[0]\<close> on a value that is neither null nor undefined: the first element of an
  array, the first code unit of a string, the property \<^verbatim>\<open>"0"\<close> of an object. The
  handlers only read \<^verbatim>\<open>message\<close> from the result, which is undefined on any string.
\<close>

fun index0 :: "jsval \<Rightarrow> jsval" where
  "index0 (JArr xs) = (case xs of [] \<Rightarrow> JUndefined | x # rest \<Rightarrow> x)"
| "index0 (JStr s) = (case s of [] \<Rightarrow> JUndefined | c # rest \<Rightarrow> JStr [c])"
| "index0 (JObj fs) = (case map_of fs ''0'' of None \<Rightarrow> JUndefined | Some v \<Rightarrow> v)"
| "index0 v = JUndefined"

text \<open>\<^verbatim>\<open>v?.access\<close>: undefined when \<^verbatim>\<open>v\<close> is null or undefined, the access otherwise.\<close>

definition opt_chain :: "(jsval \<Rightarrow> jsval) \<Rightarrow> jsval \<Rightarrow> jsval" where
  "opt_chain access v = (if nullish v then JUndefined else access v)"

text \<open>\<^verbatim>\<open>v ?? d\<close> and \<^verbatim>\<open>v || d\<close>.\<close>

definition nullish_coalesce :: "jsval \<Rightarrow> jsval \<Rightarrow> jsval" where
  "nullish_coalesce v d = (if nullish v then d else v)"

definition logical_or :: "jsval \<Rightarrow> jsval \<Rightarrow> jsval" where
  "logical_or v d = (if truthy v then v else d)"

text \<open>
  An exception is an \<^verbatim>\<open>Error\<close> object: the language (a \<^verbatim>\<open>TypeError\<close> on a read
  from null or undefined) and node-fetch (\<^verbatim>\<open>FetchError\<close>, \<^verbatim>\<open>SyntaxError\<close>) throw
  nothing else, and the handlers have no \<^verbatim>\<open>throw\<close> of their own.
\<close>

datatype js_error = JsError (err_name: string) (message: string)

section \<open>The environment of one request\<close>

text \<open>
  An environment variable is a string or is not set. \<^verbatim>\<open>process.env.X\<close> reads it as a
  value, and a template literal \<^verbatim>\<open>`${process.env.X}`\<close> as text.
\<close>

fun env_value :: "string option \<Rightarrow> jsval" where
  "env_value None = JUndefined"
| "env_value (Some s) = JStr s"

fun template_text :: "string option \<Rightarrow> string" where
  "template_text None = ''undefined''"
| "template_text (Some s) = s"

text \<open>
  The call to \<^verbatim>\<open>fetch\<close>: its URL, its options, and the value that
  \<^verbatim>\<open>JSON.stringify\<close> turns into the body.
\<close>

record upstream_request =
  url :: string
  http_method :: string
  headers :: "(string \<times> string) list"
  body :: jsval

text \<open>
  The response of the upstream: its status, and what awaiting \<^verbatim>\<open>resp.text()\<close> and
  \<^verbatim>\<open>resp.json()\<close> gives, a value or a rejection. A handler awaits at most one of the
  two.
\<close>

record upstream_response =
  status :: nat
  text_body :: "js_error + string"
  json_body :: "js_error + jsval"

text \<open>\<^verbatim>\<open>resp.ok\<close>, as the Fetch standard and node-fetch define it.\<close>

definition ok :: "upstream_response \<Rightarrow> bool" where
  "ok r = (200 \<le> status r \<and> status r < 300)"

text \<open>
  What one request finds around it: the credential in the process environment, what
  awaiting \<^verbatim>\<open>fetch\<close> gives (a rejection on a network failure), and the
  \<^verbatim>\<open>TypeError\<close> the engine raises on reading a property of null or undefined (its
  message is the engine's).
\<close>

record world =
  OPENAI_API_KEY :: "string option"
  fetch_result :: "js_error + upstream_response"
  type_error :: "jsval \<Rightarrow> string \<Rightarrow> js_error"

text \<open>
  What the caller receives, \<^verbatim>\<open>res.send(text)\<close> or \<^verbatim>\<open>res.status(n).json(v)\<close> with
  the value \<^verbatim>\<open>v\<close> that Express serialises (status 200 unless one is set), and what
  a handler did: the response and the upstream calls it made, in order. The lines written
  to the console are not part of the model.
\<close>

datatype payload = Json jsval | Text string

record http_response =
  code :: nat
  payload :: payload

record handled =
  response :: http_response
  calls :: "upstream_request list"

definition send_json :: "nat \<Rightarrow> jsval \<Rightarrow> http_response" where
  "send_json n v = \<lparr>code = n, payload = Json v\<rparr>"

section \<open>src/server.js\<close>

text \<open>\<^verbatim>\<open>app.get("/", ...)\<close>\<close>

definition server_get_root :: "world \<Rightarrow> handled" where
  "server_get_root w =
     \<lparr>response = \<lparr>code = 200, payload = Text ''Chatbot backend is running.''\<rparr>, calls = []\<rparr>"

text \<open>
  The \<^verbatim>\<open>try\<close> block of \<^verbatim>\<open>app.post("/chat", ...)\<close>: the response it returns or the
  exception it raises, with the upstream calls made until then. It raises where the
  source does: destructuring a body that is null or undefined, awaiting \<^verbatim>\<open>fetch\<close>,
  \<^verbatim>\<open>resp.text()\<close> or \<^verbatim>\<open>resp.json()\<close>, and reading \<^verbatim>\<open>data.choices\<close> when the
  parsed body is null.
\<close>

definition server_fetch_call :: "string option \<Rightarrow> jsval \<Rightarrow> upstream_request" where
  "server_fetch_call apiKey messages =
     \<lparr>url = ''https://api.openai.com/v1/chat/completions'',
      http_method = ''POST'',
      headers = [(''Content-Type'', ''application/json''),
                 (''Authorization'', ''Bearer '' @ template_text apiKey)],
      body = JObj [(''model'', JStr ''gpt-4o-mini''),
                   (''messages'', messages),
                   (''max_tokens'', JNum (Fin 512))]\<rparr>"

definition server_reply :: "jsval \<Rightarrow> jsval" where
  "server_reply data =
     nullish_coalesce
       (opt_chain (\<lambda>m. own_prop m ''content'')
         (opt_chain (\<lambda>c. own_prop c ''message'')
           (opt_chain index0 (own_prop data ''choices''))))
       (JStr ''No reply generated'')"

definition server_chat_try ::
  "world \<Rightarrow> jsval \<Rightarrow> (js_error + http_response) \<times> upstream_request list" where
  "server_chat_try w req_body =
     (if nullish req_body then (Inl (type_error w req_body ''messages''), [])
      else
        let messages = own_prop req_body ''messages'' in
        if \<not> truthy messages \<or> \<not> isArray messages
        then (Inr (send_json 400 (JObj [(''error'', JStr ''Messages array missing'')])), [])
        else
          let apiKey = OPENAI_API_KEY w in
          if \<not> truthy (env_value apiKey)
          then (Inr (send_json 500
                  (JObj [(''error'', JStr ''Missing OPENAI_API_KEY in environment'')])), [])
          else
            let call = server_fetch_call apiKey messages in
            (case fetch_result w of
               Inl err \<Rightarrow> (Inl err, [call])
             | Inr resp \<Rightarrow>
                 if \<not> ok resp
                 then (case text_body resp of
                         Inl err \<Rightarrow> (Inl err, [call])
                       | Inr t \<Rightarrow>
                           (Inr (send_json 502
                              (JObj [(''error'', JStr ''OpenAI API error''),
                                     (''details'', JStr t)])), [call]))
                 else (case json_body resp of
                         Inl err \<Rightarrow> (Inl err, [call])
                       | Inr data \<Rightarrow>
                           if nullish data
                           then (Inl (type_error w data ''choices''), [call])
                           else (Inr (send_json 200
                                   (JObj [(''reply'', server_reply data)])), [call]))))"

text \<open>The handler: the \<^verbatim>\<open>try\<close> block under its \<^verbatim>\<open>catch\<close>.\<close>

definition server_post_chat :: "world \<Rightarrow> jsval \<Rightarrow> handled" where
  "server_post_chat w req_body =
     (case server_chat_try w req_body of
        (Inl err, cs) \<Rightarrow>
          \<lparr>response = send_json 500
             (JObj [(''error'', JStr ''Server error''), (''details'', JStr (message err))]),
           calls = cs\<rparr>
      | (Inr r, cs) \<Rightarrow> \<lparr>response = r, calls = cs\<rparr>)"

section \<open>src/unnamed/part_000\<close>

text \<open>
  The same two routes. The relay route tests \<^verbatim>\<open>messages\<close> for truthiness only, reads
  the credential inside the template literal of the header and nowhere else, parses the
  upstream body whatever the status, reads \<^verbatim>\<open>data?.choices\<close>, and falls back with
  \<^verbatim>\<open>||\<close>.
\<close>

definition part_000_get_root :: "world \<Rightarrow> handled" where
  "part_000_get_root w =
     \<lparr>response = \<lparr>code = 200, payload = Text ''Chatbot backend is running.''\<rparr>, calls = []\<rparr>"

definition part_000_fetch_call :: "string option \<Rightarrow> jsval \<Rightarrow> upstream_request" where
  "part_000_fetch_call apiKey messages =
     \<lparr>url = ''https://api.openai.com/v1/chat/completions'',
      http_method = ''POST'',
      headers = [(''Content-Type'', ''application/json''),
                 (''Authorization'', ''Bearer '' @ template_text apiKey)],
      body = JObj [(''model'', JStr ''gpt-4o-mini''),
                   (''messages'', messages),
                   (''max_tokens'', JNum (Fin 300))]\<rparr>"

definition part_000_reply :: "jsval \<Rightarrow> jsval" where
  "part_000_reply data =
     logical_or
       (opt_chain (\<lambda>m. own_prop m ''content'')
         (opt_chain (\<lambda>c. own_prop c ''message'')
           (opt_chain index0 (opt_chain (\<lambda>d. own_prop d ''choices'') data))))
       (JStr ''No reply'')"

definition part_000_chat_try ::
  "world \<Rightarrow> jsval \<Rightarrow> (js_error + http_response) \<times> upstream_request list" where
  "part_000_chat_try w req_body =
     (if nullish req_body then (Inl (type_error w req_body ''messages''), [])
      else
        let messages = own_prop req_body ''messages'' in
        if \<not> truthy messages
        then (Inr (send_json 400 (JObj [(''error'', JStr ''Messages array missing'')])), [])
        else
          let call = part_000_fetch_call (OPENAI_API_KEY w) messages in
          (case fetch_result w of
             Inl err \<Rightarrow> (Inl err, [call])
           | Inr resp \<Rightarrow>
               (case json_body resp of
                  Inl err \<Rightarrow> (Inl err, [call])
                | Inr data \<Rightarrow>
                    (Inr (send_json 200 (JObj [(''reply'', part_000_reply data)])), [call]))))"

definition part_000_post_chat :: "world \<Rightarrow> jsval \<Rightarrow> handled" where
  "part_000_post_chat w req_body =
     (case part_000_chat_try w req_body of
        (Inl err, cs) \<Rightarrow>
          \<lparr>response = send_json 500
             (JObj [(''error'', JStr ''Server error''), (''details'', JStr (message err))]),
           calls = cs\<rparr>
      | (Inr r, cs) \<Rightarrow> \<lparr>response = r, calls = cs\<rparr>)"

section \<open>Sample requests and upstream responses\<close>

text \<open>
  Concrete inputs at which the theorems below are evaluated: a request with one user
  message, and upstream responses as the completion API gives them, each with the text of
  its body and what parsing that text as JSON gives.
\<close>

definition engine_type_error :: "jsval \<Rightarrow> string \<Rightarrow> js_error" where
  "engine_type_error v p = JsError ''TypeError'' (''Cannot read property '' @ p)"

definition sample_world :: "string option \<Rightarrow> js_error + upstream_response \<Rightarrow> world" where
  "sample_world key fetched =
     \<lparr>OPENAI_API_KEY = key, fetch_result = fetched, type_error = engine_type_error\<rparr>"

definition hello_messages :: jsval where
  "hello_messages = JArr [JObj [(''role'', JStr ''user''), (''content'', JStr ''hi'')]]"

definition hello_request :: jsval where
  "hello_request = JObj [(''messages'', hello_messages)]"

definition greeting :: upstream_response where
  "greeting =
     \<lparr>status = 200,
      text_body =
        Inr ''{\"choices\":[{\"message\":{\"role\":\"assistant\",\"content\":\"Hello!\"}}]}'',
      json_body =
        Inr (JObj [(''choices'',
               JArr [JObj [(''message'',
                       JObj [(''role'', JStr ''assistant''),
                             (''content'', JStr ''Hello!'')])]])])\<rparr>"

definition silence :: upstream_response where
  "silence =
     \<lparr>status = 200,
      text_body =
        Inr ''{\"choices\":[{\"message\":{\"role\":\"assistant\",\"content\":\"\"}}]}'',
      json_body =
        Inr (JObj [(''choices'',
               JArr [JObj [(''message'',
                       JObj [(''role'', JStr ''assistant''),
                             (''content'', JStr [])])]])])\<rparr>"

definition no_choices :: upstream_response where
  "no_choices =
     \<lparr>status = 200,
      text_body = Inr ''{\"id\":\"chatcmpl-1\"}'',
      json_body = Inr (JObj [(''id'', JStr ''chatcmpl-1'')])\<rparr>"

definition truncated :: upstream_response where
  "truncated =
     \<lparr>status = 200,
      text_body = Inr ''{\"choices\":['',
      json_body = Inl (JsError ''SyntaxError'' ''Unexpected end of JSON input'')\<rparr>"

definition rate_limited :: upstream_response where
  "rate_limited =
     \<lparr>status = 429,
      text_body = Inr ''rate limited'',
      json_body = Inl (JsError ''SyntaxError'' ''Unexpected token r in JSON at position 0'')\<rparr>"

definition invalid_key :: upstream_response where
  "invalid_key =
     \<lparr>status = 401,
      text_body = Inr ''{\"error\":{\"code\":\"invalid_api_key\"}}'',
      json_body = Inr (JObj [(''error'', JObj [(''code'', JStr ''invalid_api_key'')])])\<rparr>"

definition aborted :: upstream_response where
  "aborted =
     \<lparr>status = 503,
      text_body = Inl (JsError ''FetchError'' ''Premature close''),
      json_body = Inl (JsError ''FetchError'' ''Premature close'')\<rparr>"

definition null_body :: upstream_response where
  "null_body = \<lparr>status = 200, text_body = Inr ''null'', json_body = Inr JNull\<rparr>"

definition empty_choices :: upstream_response where
  "empty_choices =
     \<lparr>status = 200,
      text_body = Inr ''{\"choices\":[]}'',
      json_body = Inr (JObj [(''choices'', JArr [])])\<rparr>"

definition null_content :: upstream_response where
  "null_content =
     \<lparr>status = 200,
      text_body =
        Inr ''{\"choices\":[{\"message\":{\"role\":\"assistant\",\"content\":null}}]}'',
      json_body =
        Inr (JObj [(''choices'',
               JArr [JObj [(''message'',
                       JObj [(''role'', JStr ''assistant''), (''content'', JNull)])]])])\<rparr>"

definition key_echo :: upstream_response where
  "key_echo =
     \<lparr>status = 401,
      text_body = Inr ''{\"error\":{\"message\":\"Incorrect API key provided: sk-test\"}}'',
      json_body =
        Inr (JObj [(''error'',
               JObj [(''message'', JStr ''Incorrect API key provided: sk-test'')])])\<rparr>"

definition unreachable :: js_error where
  "unreachable =
     JsError ''FetchError''
       ''request to https://api.openai.com/v1/chat/completions failed, reason: ECONNREFUSED''"

text \<open>The response of the \<^verbatim>\<open>catch\<close> block of both handlers to the exception it caught.\<close>

abbreviation server_error_500 :: "js_error \<Rightarrow> http_response" where
  "server_error_500 err \<equiv>
     \<lparr>code = 500,
      payload = Json (JObj [(''error'', JStr ''Server error''),
                            (''details'', JStr (message err))])\<rparr>"

lemmas chat_defs =
  server_post_chat_def server_chat_try_def part_000_post_chat_def part_000_chat_try_def

lemmas reply_defs =
  server_reply_def part_000_reply_def opt_chain_def nullish_coalesce_def logical_or_def

section \<open>Missing credential\<close>

text \<open>
  C1, as the code has it. In \<^verbatim>\<open>server.js\<close>, a POST /chat request whose
  \<^verbatim>\<open>messages\<close> is an array, when \<^verbatim>\<open>OPENAI_API_KEY\<close> is unset or empty, is answered
  with status 500 and \<^verbatim>\<open>{error: "Missing OPENAI_API_KEY in environment"}\<close>, and no
  upstream call is made. \<^verbatim>\<open>part_000\<close> has no credential check: it makes the upstream
  call whatever the variable holds, with \<^verbatim>\<open>Bearer undefined\<close> when it is unset.
\<close>

theorem server_missing_credential_500:
  assumes "map_of fs ''messages'' = Some (JArr ms)"
  shows "(\<not> truthy (env_value (OPENAI_API_KEY w)) \<longrightarrow>
            server_post_chat w (JObj fs) =
              \<lparr>response =
                 \<lparr>code = 500,
                  payload =
                    Json (JObj [(''error'', JStr ''Missing OPENAI_API_KEY in environment'')])\<rparr>,
               calls = []\<rparr>)
       \<and> calls (part_000_post_chat w (JObj fs)) =
            [\<lparr>url = ''https://api.openai.com/v1/chat/completions'',
              http_method = ''POST'',
              headers = [(''Content-Type'', ''application/json''),
                         (''Authorization'', ''Bearer '' @ template_text (OPENAI_API_KEY w))],
              body = JObj [(''model'', JStr ''gpt-4o-mini''),
                           (''messages'', JArr ms),
                           (''max_tokens'', JNum (Fin 300))]\<rparr>]"
  using assms
  by (simp add: chat_defs send_json_def part_000_fetch_call_def Let_def split: sum.splits)

theorem server_missing_credential_500_witness:
  "server_post_chat (sample_world None (Inr invalid_key)) hello_request =
     \<lparr>response =
        \<lparr>code = 500,
         payload = Json (JObj [(''error'', JStr ''Missing OPENAI_API_KEY in environment'')])\<rparr>,
      calls = []\<rparr>
   \<and> server_post_chat (sample_world (Some []) (Inr invalid_key)) hello_request =
     \<lparr>response =
        \<lparr>code = 500,
         payload = Json (JObj [(''error'', JStr ''Missing OPENAI_API_KEY in environment'')])\<rparr>,
      calls = []\<rparr>
   \<and> calls (part_000_post_chat (sample_world None (Inr invalid_key)) hello_request) =
       [\<lparr>url = ''https://api.openai.com/v1/chat/completions'',
         http_method = ''POST'',
         headers = [(''Content-Type'', ''application/json''),
                    (''Authorization'', ''Bearer undefined'')],
         body = JObj [(''model'', JStr ''gpt-4o-mini''),
                      (''messages'', hello_messages),
                      (''max_tokens'', JNum (Fin 300))]\<rparr>]"
proof -
  have h: "map_of [(''messages'', hello_messages)] ''messages''
             = Some (JArr [JObj [(''role'', JStr ''user''), (''content'', JStr ''hi'')]])"
    by (simp add: hello_messages_def)
  show ?thesis
    using server_missing_credential_500 [OF h, of "sample_world None (Inr invalid_key)"]
          server_missing_credential_500 [OF h, of "sample_world (Some []) (Inr invalid_key)"]
    by (simp add: sample_world_def hello_request_def hello_messages_def)
qed

text \<open>
  C1 as stated fails on \<^verbatim>\<open>part_000\<close>: with the credential unset and a well-formed
  request, it calls the upstream with \<^verbatim>\<open>Bearer undefined\<close> and relays what comes back,
  here status 200 with the placeholder reply.
\<close>

theorem part_000_missing_credential_counterexample:
  "OPENAI_API_KEY (sample_world None (Inr invalid_key)) = None
   \<and> part_000_post_chat (sample_world None (Inr invalid_key)) hello_request =
     \<lparr>response = \<lparr>code = 200, payload = Json (JObj [(''reply'', JStr ''No reply'')])\<rparr>,
      calls = [\<lparr>url = ''https://api.openai.com/v1/chat/completions'',
                http_method = ''POST'',
                headers = [(''Content-Type'', ''application/json''),
                           (''Authorization'', ''Bearer undefined'')],
                body = JObj [(''model'', JStr ''gpt-4o-mini''),
                             (''messages'', hello_messages),
                             (''max_tokens'', JNum (Fin 300))]\<rparr>]\<rparr>
   \<and> code (response (part_000_post_chat (sample_world None (Inr invalid_key)) hello_request))
       \<noteq> 500
   \<and> calls (part_000_post_chat (sample_world None (Inr invalid_key)) hello_request) \<noteq> []"
  by (simp add: chat_defs reply_defs sample_world_def hello_request_def hello_messages_def
        invalid_key_def part_000_fetch_call_def send_json_def)

section \<open>Requests without a messages field\<close>



section \<open>Upstream failure\<close>

text \<open>
  C3, as the code has it. In \<^verbatim>\<open>server.js\<close>, a POST /chat request that passes
  validation and the credential check, when the upstream answers with a status outside
  200..299 and the body text \<^verbatim>\<open>t\<close>, is answered with status 502 and
  \<^verbatim>\<open>{error: "OpenAI API error", details: t}\<close>, after the one upstream call: the
  upstream body is passed through as the details, \<^verbatim>\<open>rate limited\<close> as any other.
  \<^verbatim>\<open>part_000\<close> does not look at the status: it parses the body as JSON whatever the
  status is, answers 500 with the message of the parse error when that fails and 200 with
  the reply or its placeholder otherwise, and never answers 502.
\<close>

theorem upstream_failure_502:
  assumes "map_of fs ''messages'' = Some (JArr ms)"
    and "fetch_result w = Inr r"
  shows "(truthy (env_value (OPENAI_API_KEY w)) \<and> \<not> ok r \<and> text_body r = Inr t \<longrightarrow>
            server_post_chat w (JObj fs) =
              \<lparr>response =
                 \<lparr>code = 502,
                  payload = Json (JObj [(''error'', JStr ''OpenAI API error''),
                                        (''details'', JStr t)])\<rparr>,
               calls = [server_fetch_call (OPENAI_API_KEY w) (JArr ms)]\<rparr>)
       \<and> (json_body r = Inl err \<longrightarrow>
            response (part_000_post_chat w (JObj fs)) = server_error_500 err)
       \<and> (json_body r = Inr data \<longrightarrow>
            response (part_000_post_chat w (JObj fs)) =
              \<lparr>code = 200, payload = Json (JObj [(''reply'', part_000_reply data)])\<rparr>)
       \<and> code (response (part_000_post_chat w (JObj fs))) \<noteq> 502"
proof (intro conjI impI)
  assume "truthy (env_value (OPENAI_API_KEY w)) \<and> \<not> ok r \<and> text_body r = Inr t"
  with assms show "server_post_chat w (JObj fs) =
              \<lparr>response =
                 \<lparr>code = 502,
                  payload = Json (JObj [(''error'', JStr ''OpenAI API error''),
                                        (''details'', JStr t)])\<rparr>,
               calls = [server_fetch_call (OPENAI_API_KEY w) (JArr ms)]\<rparr>"
    by (simp add: chat_defs send_json_def)
next
  assume "json_body r = Inl err"
  with assms show "response (part_000_post_chat w (JObj fs)) = server_error_500 err"
    by (simp add: chat_defs send_json_def)
next
  assume "json_body r = Inr data"
  with assms show "response (part_000_post_chat w (JObj fs)) =
              \<lparr>code = 200, payload = Json (JObj [(''reply'', part_000_reply data)])\<rparr>"
    by (simp add: chat_defs send_json_def)
next
  from assms show "code (response (part_000_post_chat w (JObj fs))) \<noteq> 502"
    by (simp add: chat_defs send_json_def Let_def split: sum.splits)
qed

theorem upstream_failure_502_witness:
  "truthy (env_value (OPENAI_API_KEY (sample_world (Some ''sk-test'') (Inr rate_limited))))
   \<and> \<not> ok rate_limited
   \<and> text_body rate_limited = Inr ''rate limited''
   \<and> response (server_post_chat (sample_world (Some ''sk-test'') (Inr rate_limited))
        hello_request) =
       \<lparr>code = 502,
        payload = Json (JObj [(''error'', JStr ''OpenAI API error''),
                              (''details'', JStr ''rate limited'')])\<rparr>
   \<and> response (server_post_chat (sample_world (Some ''sk-test'') (Inr invalid_key))
        hello_request) =
       \<lparr>code = 502,
        payload = Json (JObj [(''error'', JStr ''OpenAI API error''),
                 (''details'', JStr ''{\"error\":{\"code\":\"invalid_api_key\"}}'')])\<rparr>
   \<and> response (part_000_post_chat (sample_world (Some ''sk-test'') (Inr rate_limited))
        hello_request) =
       \<lparr>code = 500,
        payload = Json (JObj [(''error'', JStr ''Server error''),
                 (''details'', JStr ''Unexpected token r in JSON at position 0'')])\<rparr>
   \<and> response (part_000_post_chat (sample_world (Some ''sk-test'') (Inr invalid_key))
        hello_request) =
       \<lparr>code = 200, payload = Json (JObj [(''reply'', JStr ''No reply'')])\<rparr>"
proof -
  have h1: "map_of [(''messages'', hello_messages)] ''messages''
              = Some (JArr [JObj [(''role'', JStr ''user''), (''content'', JStr ''hi'')]])"
    by (simp add: hello_messages_def)
  have h2: "fetch_result (sample_world (Some ''sk-test'') (Inr x)) = Inr x" for x
    by (simp add: sample_world_def)
  have k: "truthy (env_value (OPENAI_API_KEY (sample_world (Some ''sk-test'') (Inr x))))" for x
    by (simp add: sample_world_def)
  have n1: "\<not> ok rate_limited" and n2: "\<not> ok invalid_key"
    by (simp_all add: ok_def rate_limited_def invalid_key_def)
  have t1: "text_body rate_limited = Inr ''rate limited''"
    by (simp add: rate_limited_def)
  have t2: "text_body invalid_key = Inr ''{\"error\":{\"code\":\"invalid_api_key\"}}''"
    by (simp add: invalid_key_def)
  have j1: "json_body rate_limited
              = Inl (JsError ''SyntaxError'' ''Unexpected token r in JSON at position 0'')"
    by (simp add: rate_limited_def)
  have j2: "json_body invalid_key
              = Inr (JObj [(''error'', JObj [(''code'', JStr ''invalid_api_key'')])])"
    by (simp add: invalid_key_def)
  have p: "part_000_reply (JObj [(''error'', JObj [(''code'', JStr ''invalid_api_key'')])])
             = JStr ''No reply''"
    by (simp add: reply_defs)
  show ?thesis
    using k n1 n2 t1 t2 j1 j2 p
      upstream_failure_502 [OF h1 h2 [of rate_limited], where t = "''rate limited''"
        and err = "JsError ''SyntaxError'' ''Unexpected token r in JSON at position 0''"]
      upstream_failure_502 [OF h1 h2 [of invalid_key], where
            t = "''{\"error\":{\"code\":\"invalid_api_key\"}}''"
        and data = "JObj [(''error'', JObj [(''code'', JStr ''invalid_api_key'')])]"]
    by (simp add: hello_request_def)
qed

text \<open>
  C3 as stated fails on \<^verbatim>\<open>part_000\<close>: the request passes its validation, the upstream
  answers 429 with the body text \<^verbatim>\<open>rate limited\<close>, and the response is the 500 of the
  \<^verbatim>\<open>catch\<close> block with the message of the parse error, not 502.
\<close>

theorem part_000_rate_limited_counterexample:
  "status rate_limited = 429
   \<and> \<not> ok rate_limited
   \<and> text_body rate_limited = Inr ''rate limited''
   \<and> part_000_post_chat (sample_world (Some ''sk-test'') (Inr rate_limited)) hello_request =
       \<lparr>response =
          \<lparr>code = 500,
           payload = Json (JObj [(''error'', JStr ''Server error''),
                    (''details'', JStr ''Unexpected token r in JSON at position 0'')])\<rparr>,
        calls = [\<lparr>url = ''https://api.openai.com/v1/chat/completions'',
                  http_method = ''POST'',
                  headers = [(''Content-Type'', ''application/json''),
                             (''Authorization'', ''Bearer sk-test'')],
                  body = JObj [(''model'', JStr ''gpt-4o-mini''),
                               (''messages'', hello_messages),
                               (''max_tokens'', JNum (Fin 300))]\<rparr>]\<rparr>
   \<and> code (response (part_000_post_chat (sample_world (Some ''sk-test'') (Inr rate_limited))
         hello_request)) \<noteq> 502"
  by (simp add: chat_defs sample_world_def hello_request_def hello_messages_def
        rate_limited_def ok_def part_000_fetch_call_def send_json_def)

section \<open>Successful completion\<close>

text \<open>
  C4, as the code has it. For a POST /chat request whose \<^verbatim>\<open>messages\<close> is an array,
  when the upstream returns a completion whose first choice has message content
  \<^verbatim>\<open>c\<close>: \<^verbatim>\<open>server.js\<close>, with the credential configured and a status in 200..299,
  answers 200 \<^verbatim>\<open>{reply: c}\<close> for every \<^verbatim>\<open>c\<close> other than null, so for every string;
  \<^verbatim>\<open>part_000\<close> answers 200 \<^verbatim>\<open>{reply: c}\<close> for every truthy \<^verbatim>\<open>c\<close>, so for every
  string but the empty one.
\<close>

theorem completion_reply_200:
  assumes "map_of fs ''messages'' = Some (JArr ms)"
    and "fetch_result w = Inr r"
    and "json_body r = Inr (JObj ds)"
    and "map_of ds ''choices'' = Some (JArr (JObj cf # rest))"
    and "map_of cf ''message'' = Some (JObj mf)"
    and "map_of mf ''content'' = Some c"
  shows "(truthy (env_value (OPENAI_API_KEY w)) \<and> ok r \<and> \<not> nullish c \<longrightarrow>
            response (server_post_chat w (JObj fs)) =
              \<lparr>code = 200, payload = Json (JObj [(''reply'', c)])\<rparr>)
       \<and> (truthy c \<longrightarrow>
            response (part_000_post_chat w (JObj fs)) =
              \<lparr>code = 200, payload = Json (JObj [(''reply'', c)])\<rparr>)"
  using assms
  by (simp add: chat_defs reply_defs send_json_def)

theorem completion_reply_200_witness:
  "response (server_post_chat (sample_world (Some ''sk-test'') (Inr greeting)) hello_request) =
     \<lparr>code = 200, payload = Json (JObj [(''reply'', JStr ''Hello!'')])\<rparr>
   \<and> response (part_000_post_chat (sample_world (Some ''sk-test'') (Inr greeting))
        hello_request) =
     \<lparr>code = 200, payload = Json (JObj [(''reply'', JStr ''Hello!'')])\<rparr>"
proof -
  have h1: "map_of [(''messages'', hello_messages)] ''messages''
              = Some (JArr [JObj [(''role'', JStr ''user''), (''content'', JStr ''hi'')]])"
    by (simp add: hello_messages_def)
  have h2: "fetch_result (sample_world (Some ''sk-test'') (Inr greeting)) = Inr greeting"
    by (simp add: sample_world_def)
  have h3: "json_body greeting =
              Inr (JObj [(''choices'',
                     JArr [JObj [(''message'',
                             JObj [(''role'', JStr ''assistant''),
                                   (''content'', JStr ''Hello!'')])]])])"
    by (simp add: greeting_def)
  have h4: "map_of [(''choices'',
                     JArr [JObj [(''message'',
                             JObj [(''role'', JStr ''assistant''),
                                   (''content'', JStr ''Hello!'')])]])] ''choices''
              = Some (JArr (JObj [(''message'',
                             JObj [(''role'', JStr ''assistant''),
                                   (''content'', JStr ''Hello!'')])] # []))"
    by simp
  have h5: "map_of [(''message'',
                     JObj [(''role'', JStr ''assistant''), (''content'', JStr ''Hello!'')])]
              ''message''
              = Some (JObj [(''role'', JStr ''assistant''), (''content'', JStr ''Hello!'')])"
    by simp
  have h6: "map_of [(''role'', JStr ''assistant''), (''content'', JStr ''Hello!'')] ''content''
              = Some (JStr ''Hello!'')"
    by simp
  show ?thesis
    using completion_reply_200 [OF h1 h2 h3 h4 h5 h6]
    by (simp add: hello_request_def sample_world_def ok_def greeting_def)
qed

text \<open>
  C4 as stated fails on \<^verbatim>\<open>part_000\<close> when the content is the empty string: the
  upstream's first choice has message content \<^verbatim>\<open>""\<close>, and the reply is the placeholder.
\<close>

theorem part_000_empty_content_counterexample:
  "json_body silence =
     Inr (JObj [(''choices'',
            JArr [JObj [(''message'',
                    JObj [(''role'', JStr ''assistant''), (''content'', JStr [])])]])])
   \<and> response (part_000_post_chat (sample_world (Some ''sk-test'') (Inr silence))
        hello_request) =
       \<lparr>code = 200, payload = Json (JObj [(''reply'', JStr ''No reply'')])\<rparr>
   \<and> response (part_000_post_chat (sample_world (Some ''sk-test'') (Inr silence))
        hello_request) \<noteq>
       \<lparr>code = 200, payload = Json (JObj [(''reply'', JStr [])])\<rparr>"
  by (simp add: chat_defs reply_defs sample_world_def hello_request_def hello_messages_def
        silence_def send_json_def)

section \<open>Completion without content\<close>

text \<open>
  C6, as the code has it. For a POST /chat request whose \<^verbatim>\<open>messages\<close> is an array,
  when the upstream returns success and reading the first choice's message content from
  the parsed body yields nothing: \<^verbatim>\<open>server.js\<close>, with the credential configured and
  a parsed body other than null, answers 200 \<^verbatim>\<open>{reply: "No reply generated"}\<close> whenever
  the content read is null or undefined; \<^verbatim>\<open>part_000\<close> answers 200
  \<^verbatim>\<open>{reply: "No reply"}\<close> whenever the content read is falsy, also for a parsed body
  that is null. That is so in particular for a parsed object without \<^verbatim>\<open>choices\<close>, with
  \<^verbatim>\<open>choices\<close> null or empty, with a first choice that is null or has no
  \<^verbatim>\<open>message\<close> or a null one, and with a message that has no \<^verbatim>\<open>content\<close> or a null
  one.
\<close>

theorem no_content_placeholder:
  assumes "map_of fs ''messages'' = Some (JArr ms)"
    and "fetch_result w = Inr r"
    and "ok r"
    and "json_body r = Inr data"
  shows "(truthy (env_value (OPENAI_API_KEY w)) \<and> \<not> nullish data
           \<and> nullish (opt_chain (\<lambda>m. own_prop m ''content'')
                        (opt_chain (\<lambda>c. own_prop c ''message'')
                          (opt_chain index0 (own_prop data ''choices'')))) \<longrightarrow>
            response (server_post_chat w (JObj fs)) =
              \<lparr>code = 200, payload = Json (JObj [(''reply'', JStr ''No reply generated'')])\<rparr>)
       \<and> (\<not> truthy (opt_chain (\<lambda>m. own_prop m ''content'')
                        (opt_chain (\<lambda>c. own_prop c ''message'')
                          (opt_chain index0
                            (opt_chain (\<lambda>d. own_prop d ''choices'') data)))) \<longrightarrow>
            response (part_000_post_chat w (JObj fs)) =
              \<lparr>code = 200, payload = Json (JObj [(''reply'', JStr ''No reply'')])\<rparr>)
       \<and> (data = JObj ds
           \<and> (map_of ds ''choices'' = None
              \<or> map_of ds ''choices'' = Some JNull
              \<or> map_of ds ''choices'' = Some (JArr [])
              \<or> map_of ds ''choices'' = Some (JArr (JNull # rest))
              \<or> (map_of ds ''choices'' = Some (JArr (JObj cf # rest))
                 \<and> (map_of cf ''message'' = None
                    \<or> map_of cf ''message'' = Some JNull
                    \<or> (map_of cf ''message'' = Some (JObj mf)
                       \<and> (map_of mf ''content'' = None
                          \<or> map_of mf ''content'' = Some JNull))))) \<longrightarrow>
            (truthy (env_value (OPENAI_API_KEY w)) \<longrightarrow>
               response (server_post_chat w (JObj fs)) =
                 \<lparr>code = 200,
                  payload = Json (JObj [(''reply'', JStr ''No reply generated'')])\<rparr>)
            \<and> response (part_000_post_chat w (JObj fs)) =
                 \<lparr>code = 200, payload = Json (JObj [(''reply'', JStr ''No reply'')])\<rparr>)"
proof (intro conjI impI)
  assume "truthy (env_value (OPENAI_API_KEY w)) \<and> \<not> nullish data
           \<and> nullish (opt_chain (\<lambda>m. own_prop m ''content'')
                        (opt_chain (\<lambda>c. own_prop c ''message'')
                          (opt_chain index0 (own_prop data ''choices''))))"
  with assms show "response (server_post_chat w (JObj fs)) =
              \<lparr>code = 200, payload = Json (JObj [(''reply'', JStr ''No reply generated'')])\<rparr>"
    by (simp add: chat_defs send_json_def server_reply_def nullish_coalesce_def)
next
  assume "\<not> truthy (opt_chain (\<lambda>m. own_prop m ''content'')
                        (opt_chain (\<lambda>c. own_prop c ''message'')
                          (opt_chain index0
                            (opt_chain (\<lambda>d. own_prop d ''choices'') data))))"
  with assms show "response (part_000_post_chat w (JObj fs)) =
              \<lparr>code = 200, payload = Json (JObj [(''reply'', JStr ''No reply'')])\<rparr>"
    by (simp add: chat_defs send_json_def part_000_reply_def logical_or_def)
next
  assume shape: "data = JObj ds
           \<and> (map_of ds ''choices'' = None
              \<or> map_of ds ''choices'' = Some JNull
              \<or> map_of ds ''choices'' = Some (JArr [])
              \<or> map_of ds ''choices'' = Some (JArr (JNull # rest))
              \<or> (map_of ds ''choices'' = Some (JArr (JObj cf # rest))
                 \<and> (map_of cf ''message'' = None
                    \<or> map_of cf ''message'' = Some JNull
                    \<or> (map_of cf ''message'' = Some (JObj mf)
                       \<and> (map_of mf ''content'' = None
                          \<or> map_of mf ''content'' = Some JNull)))))"
  then have s: "server_reply data = JStr ''No reply generated''"
    by (auto simp add: reply_defs)
  from shape have p: "part_000_reply data = JStr ''No reply''"
    by (auto simp add: reply_defs)
  from shape have d: "\<not> nullish data"
    by auto
  show "response (part_000_post_chat w (JObj fs)) =
          \<lparr>code = 200, payload = Json (JObj [(''reply'', JStr ''No reply'')])\<rparr>"
    using assms p by (simp add: chat_defs send_json_def)
  assume "truthy (env_value (OPENAI_API_KEY w))"
  with assms s d show "response (server_post_chat w (JObj fs)) =
          \<lparr>code = 200, payload = Json (JObj [(''reply'', JStr ''No reply generated'')])\<rparr>"
    by (simp add: chat_defs send_json_def)
qed

theorem no_content_placeholder_witness:
  "ok no_choices \<and> ok empty_choices \<and> ok null_content
   \<and> response (server_post_chat (sample_world (Some ''sk-test'') (Inr no_choices))
        hello_request) =
       \<lparr>code = 200, payload = Json (JObj [(''reply'', JStr ''No reply generated'')])\<rparr>
   \<and> response (part_000_post_chat (sample_world (Some ''sk-test'') (Inr no_choices))
        hello_request) =
       \<lparr>code = 200, payload = Json (JObj [(''reply'', JStr ''No reply'')])\<rparr>
   \<and> response (server_post_chat (sample_world (Some ''sk-test'') (Inr empty_choices))
        hello_request) =
       \<lparr>code = 200, payload = Json (JObj [(''reply'', JStr ''No reply generated'')])\<rparr>
   \<and> response (part_000_post_chat (sample_world (Some ''sk-test'') (Inr empty_choices))
        hello_request) =
       \<lparr>code = 200, payload = Json (JObj [(''reply'', JStr ''No reply'')])\<rparr>
   \<and> response (server_post_chat (sample_world (Some ''sk-test'') (Inr null_content))
        hello_request) =
       \<lparr>code = 200, payload = Json (JObj [(''reply'', JStr ''No reply generated'')])\<rparr>
   \<and> response (part_000_post_chat (sample_world (Some ''sk-test'') (Inr null_content))
        hello_request) =
       \<lparr>code = 200, payload = Json (JObj [(''reply'', JStr ''No reply'')])\<rparr>
   \<and> response (part_000_post_chat (sample_world (Some ''sk-test'') (Inr null_body))
        hello_request) =
       \<lparr>code = 200, payload = Json (JObj [(''reply'', JStr ''No reply'')])\<rparr>"
proof -
  have h1: "map_of [(''messages'', hello_messages)] ''messages''
              = Some (JArr [JObj [(''role'', JStr ''user''), (''content'', JStr ''hi'')]])"
    by (simp add: hello_messages_def)
  have h2: "fetch_result (sample_world (Some ''sk-test'') (Inr x)) = Inr x" for x
    by (simp add: sample_world_def)
  have k: "truthy (env_value (OPENAI_API_KEY (sample_world (Some ''sk-test'') (Inr x))))" for x
    by (simp add: sample_world_def)
  have o1: "ok no_choices" and o2: "ok empty_choices" and o3: "ok null_content"
    and o4: "ok null_body"
    by (simp_all add: ok_def no_choices_def empty_choices_def null_content_def null_body_def)
  have j1: "json_body no_choices = Inr (JObj [(''id'', JStr ''chatcmpl-1'')])"
    by (simp add: no_choices_def)
  have j2: "json_body empty_choices = Inr (JObj [(''choices'', JArr [])])"
    by (simp add: empty_choices_def)
  have j3: "json_body null_content =
              Inr (JObj [(''choices'',
                     JArr [JObj [(''message'',
                             JObj [(''role'', JStr ''assistant''), (''content'', JNull)])]])])"
    by (simp add: null_content_def)
  have j4: "json_body null_body = Inr JNull"
    by (simp add: null_body_def)
  have a: "response (server_post_chat (sample_world (Some ''sk-test'') (Inr no_choices))
             (JObj [(''messages'', hello_messages)])) =
             \<lparr>code = 200, payload = Json (JObj [(''reply'', JStr ''No reply generated'')])\<rparr>
           \<and> response (part_000_post_chat (sample_world (Some ''sk-test'') (Inr no_choices))
             (JObj [(''messages'', hello_messages)])) =
             \<lparr>code = 200, payload = Json (JObj [(''reply'', JStr ''No reply'')])\<rparr>"
    using k no_content_placeholder [OF h1 h2 o1 j1,
            where ds = "[(''id'', JStr ''chatcmpl-1'')]"]
    by simp
  have b: "response (server_post_chat (sample_world (Some ''sk-test'') (Inr empty_choices))
             (JObj [(''messages'', hello_messages)])) =
             \<lparr>code = 200, payload = Json (JObj [(''reply'', JStr ''No reply generated'')])\<rparr>
           \<and> response (part_000_post_chat (sample_world (Some ''sk-test'') (Inr empty_choices))
             (JObj [(''messages'', hello_messages)])) =
             \<lparr>code = 200, payload = Json (JObj [(''reply'', JStr ''No reply'')])\<rparr>"
    using k no_content_placeholder [OF h1 h2 o2 j2, where ds = "[(''choices'', JArr [])]"]
    by simp
  have c: "response (server_post_chat (sample_world (Some ''sk-test'') (Inr null_content))
             (JObj [(''messages'', hello_messages)])) =
             \<lparr>code = 200, payload = Json (JObj [(''reply'', JStr ''No reply generated'')])\<rparr>
           \<and> response (part_000_post_chat (sample_world (Some ''sk-test'') (Inr null_content))
             (JObj [(''messages'', hello_messages)])) =
             \<lparr>code = 200, payload = Json (JObj [(''reply'', JStr ''No reply'')])\<rparr>"
    using k no_content_placeholder [OF h1 h2 o3 j3,
            where ds = "[(''choices'',
                     JArr [JObj [(''message'',
                             JObj [(''role'', JStr ''assistant''), (''content'', JNull)])]])]"
              and cf = "[(''message'',
                             JObj [(''role'', JStr ''assistant''), (''content'', JNull)])]"
              and rest = "[]"
              and mf = "[(''role'', JStr ''assistant''), (''content'', JNull)]"]
    by simp
  have d: "response (part_000_post_chat (sample_world (Some ''sk-test'') (Inr null_body))
             (JObj [(''messages'', hello_messages)])) =
             \<lparr>code = 200, payload = Json (JObj [(''reply'', JStr ''No reply'')])\<rparr>"
    using no_content_placeholder [OF h1 h2 o4 j4]
    by (simp add: opt_chain_def)
  show ?thesis
    using o1 o2 o3 a b c d by (simp add: hello_request_def)
qed

text \<open>
  C6 as stated fails on \<^verbatim>\<open>server.js\<close> when the successful body is the JSON
  \<^verbatim>\<open>null\<close>: it has no \<^verbatim>\<open>choices\<close>, and reading \<^verbatim>\<open>data.choices\<close> raises, so the
  response is the 500 of the \<^verbatim>\<open>catch\<close> block and not the placeholder reply.
\<close>

theorem server_null_body_counterexample:
  "ok null_body
   \<and> json_body null_body = Inr JNull
   \<and> response (server_post_chat (sample_world (Some ''sk-test'') (Inr null_body))
        hello_request) =
       \<lparr>code = 500,
        payload = Json (JObj [(''error'', JStr ''Server error''),
                 (''details'', JStr (message (engine_type_error JNull ''choices'')))])\<rparr>
   \<and> response (server_post_chat (sample_world (Some ''sk-test'') (Inr null_body))
        hello_request) \<noteq>
       \<lparr>code = 200, payload = Json (JObj [(''reply'', JStr ''No reply generated'')])\<rparr>"
  by (simp add: chat_defs sample_world_def hello_request_def hello_messages_def
        null_body_def ok_def send_json_def)

section \<open>Empty content\<close>

text \<open>
  C10. When the upstream returns success and the first choice's message content is the
  empty string, \<^verbatim>\<open>server.js\<close> (\<^verbatim>\<open>??\<close>) answers 200 \<^verbatim>\<open>{reply: ""}\<close> and
  \<^verbatim>\<open>part_000\<close> (\<^verbatim>\<open>||\<close>) answers 200 \<^verbatim>\<open>{reply: "No reply"}\<close>: the two programs
  do not substitute their placeholder under the same condition.
\<close>

theorem empty_content_differs:
  assumes "map_of fs ''messages'' = Some (JArr ms)"
    and "truthy (env_value (OPENAI_API_KEY w))"
    and "fetch_result w = Inr r"
    and "ok r"
    and "json_body r = Inr (JObj ds)"
    and "map_of ds ''choices'' = Some (JArr (JObj cf # rest))"
    and "map_of cf ''message'' = Some (JObj mf)"
    and "map_of mf ''content'' = Some (JStr [])"
  shows "response (server_post_chat w (JObj fs)) =
           \<lparr>code = 200, payload = Json (JObj [(''reply'', JStr [])])\<rparr>
       \<and> response (part_000_post_chat w (JObj fs)) =
           \<lparr>code = 200, payload = Json (JObj [(''reply'', JStr ''No reply'')])\<rparr>
       \<and> nullish_coalesce (JStr []) (JStr ''No reply generated'')
           \<noteq> logical_or (JStr []) (JStr ''No reply generated'')"
  using assms
  by (simp add: chat_defs reply_defs send_json_def)

theorem empty_content_differs_witness:
  "response (server_post_chat (sample_world (Some ''sk-test'') (Inr silence)) hello_request) =
     \<lparr>code = 200, payload = Json (JObj [(''reply'', JStr [])])\<rparr>
   \<and> response (part_000_post_chat (sample_world (Some ''sk-live'') (Inr silence))
        hello_request) =
     \<lparr>code = 200, payload = Json (JObj [(''reply'', JStr ''No reply'')])\<rparr>"
proof -
  have h1: "map_of [(''messages'', hello_messages)] ''messages''
              = Some (JArr [JObj [(''role'', JStr ''user''), (''content'', JStr ''hi'')]])"
    by (simp add: hello_messages_def)
  have h2: "truthy (env_value (OPENAI_API_KEY (sample_world (Some k) (Inr silence))))"
    if "k \<noteq> []" for k
    using that by (simp add: sample_world_def)
  have h3: "fetch_result (sample_world (Some k) (Inr silence)) = Inr silence" for k
    by (simp add: sample_world_def)
  have h4: "ok silence"
    by (simp add: ok_def silence_def)
  have h5: "json_body silence =
              Inr (JObj [(''choices'',
                     JArr [JObj [(''message'',
                             JObj [(''role'', JStr ''assistant''),
                                   (''content'', JStr [])])]])])"
    by (simp add: silence_def)
  have h6: "map_of [(''choices'',
                     JArr [JObj [(''message'',
                             JObj [(''role'', JStr ''assistant''),
                                   (''content'', JStr [])])]])] ''choices''
              = Some (JArr (JObj [(''message'',
                             JObj [(''role'', JStr ''assistant''),
                                   (''content'', JStr [])])] # []))"
    by simp
  have h7: "map_of [(''message'',
                     JObj [(''role'', JStr ''assistant''), (''content'', JStr [])])]
              ''message''
              = Some (JObj [(''role'', JStr ''assistant''), (''content'', JStr [])])"
    by simp
  have h8: "map_of [(''role'', JStr ''assistant''), (''content'', JStr [])] ''content''
              = Some (JStr [])"
    by simp
  have k1: "''sk-test'' \<noteq> []" and k2: "''sk-live'' \<noteq> []"
    by simp_all
  show ?thesis
    using empty_content_differs [OF h1 h2 [OF k1] h3 h4 h5 h6 h7 h8]
          empty_content_differs [OF h1 h2 [OF k2] h3 h4 h5 h6 h7 h8]
    by (simp add: hello_request_def)
qed

section \<open>The upstream request\<close>

text \<open>
  C5. Every upstream call a POST /chat request makes goes to the completions URL by POST,
  with a JSON content type and the header \<^verbatim>\<open>Authorization: Bearer\<close> followed by the
  credential, and its body is made of exactly three fields: the model \<^verbatim>\<open>gpt-4o-mini\<close>,
  the \<^verbatim>\<open>messages\<close> value of the request as the caller gave it, and \<^verbatim>\<open>max_tokens\<close>,
  512 in \<^verbatim>\<open>server.js\<close> and 300 in \<^verbatim>\<open>part_000\<close>. In \<^verbatim>\<open>server.js\<close> a call is made
  only with a configured credential; in \<^verbatim>\<open>part_000\<close> the token is the text of the
  environment variable, the credential whenever one is set.
\<close>

theorem upstream_request_shape:
  "(\<forall>c \<in> set (calls (server_post_chat w b)).
      \<exists>k. OPENAI_API_KEY w = Some k \<and> k \<noteq> [] \<and>
        c = \<lparr>url = ''https://api.openai.com/v1/chat/completions'',
             http_method = ''POST'',
             headers = [(''Content-Type'', ''application/json''),
                        (''Authorization'', ''Bearer '' @ k)],
             body = JObj [(''model'', JStr ''gpt-4o-mini''),
                          (''messages'', own_prop b ''messages''),
                          (''max_tokens'', JNum (Fin 512))]\<rparr>)
   \<and> (\<forall>c \<in> set (calls (part_000_post_chat w b)).
        c = \<lparr>url = ''https://api.openai.com/v1/chat/completions'',
             http_method = ''POST'',
             headers = [(''Content-Type'', ''application/json''),
                        (''Authorization'', ''Bearer '' @ template_text (OPENAI_API_KEY w))],
             body = JObj [(''model'', JStr ''gpt-4o-mini''),
                          (''messages'', own_prop b ''messages''),
                          (''max_tokens'', JNum (Fin 300))]\<rparr>)
   \<and> (\<forall>k. OPENAI_API_KEY w = Some k \<longrightarrow> template_text (OPENAI_API_KEY w) = k)
   \<and> length (calls (server_post_chat w b)) \<le> 1
   \<and> length (calls (part_000_post_chat w b)) \<le> 1"
proof (intro conjI)
  show "\<forall>c \<in> set (calls (server_post_chat w b)).
      \<exists>k. OPENAI_API_KEY w = Some k \<and> k \<noteq> [] \<and>
        c = \<lparr>url = ''https://api.openai.com/v1/chat/completions'',
             http_method = ''POST'',
             headers = [(''Content-Type'', ''application/json''),
                        (''Authorization'', ''Bearer '' @ k)],
             body = JObj [(''model'', JStr ''gpt-4o-mini''),
                          (''messages'', own_prop b ''messages''),
                          (''max_tokens'', JNum (Fin 512))]\<rparr>"
    by (cases "OPENAI_API_KEY w")
       (simp_all add: chat_defs server_fetch_call_def Let_def split: sum.splits)
  show "\<forall>c \<in> set (calls (part_000_post_chat w b)).
        c = \<lparr>url = ''https://api.openai.com/v1/chat/completions'',
             http_method = ''POST'',
             headers = [(''Content-Type'', ''application/json''),
                        (''Authorization'', ''Bearer '' @ template_text (OPENAI_API_KEY w))],
             body = JObj [(''model'', JStr ''gpt-4o-mini''),
                          (''messages'', own_prop b ''messages''),
                          (''max_tokens'', JNum (Fin 300))]\<rparr>"
    by (simp add: chat_defs part_000_fetch_call_def Let_def split: sum.splits)
  show "\<forall>k. OPENAI_API_KEY w = Some k \<longrightarrow> template_text (OPENAI_API_KEY w) = k"
    by simp
  show "length (calls (server_post_chat w b)) \<le> 1"
    by (simp add: chat_defs Let_def split: sum.splits)
  show "length (calls (part_000_post_chat w b)) \<le> 1"
    by (simp add: chat_defs Let_def split: sum.splits)
qed

theorem upstream_request_shape_witness:
  "calls (server_post_chat (sample_world (Some ''sk-test'') (Inr greeting)) hello_request) =
     [\<lparr>url = ''https://api.openai.com/v1/chat/completions'',
       http_method = ''POST'',
       headers = [(''Content-Type'', ''application/json''),
                  (''Authorization'', ''Bearer sk-test'')],
       body = JObj [(''model'', JStr ''gpt-4o-mini''),
                    (''messages'', hello_messages),
                    (''max_tokens'', JNum (Fin 512))]\<rparr>]
   \<and> calls (part_000_post_chat (sample_world (Some ''sk-test'') (Inr greeting)) hello_request) =
     [\<lparr>url = ''https://api.openai.com/v1/chat/completions'',
       http_method = ''POST'',
       headers = [(''Content-Type'', ''application/json''),
                  (''Authorization'', ''Bearer sk-test'')],
       body = JObj [(''model'', JStr ''gpt-4o-mini''),
                    (''messages'', hello_messages),
                    (''max_tokens'', JNum (Fin 300))]\<rparr>]"
proof -
  let ?w = "sample_world (Some ''sk-test'') (Inr greeting)"
  have s: "calls (server_post_chat ?w hello_request) \<noteq> []"
    by (simp add: chat_defs sample_world_def hello_request_def hello_messages_def
          greeting_def ok_def)
  have p: "calls (part_000_post_chat ?w hello_request) \<noteq> []"
    by (simp add: chat_defs sample_world_def hello_request_def hello_messages_def greeting_def)
  have key: "OPENAI_API_KEY ?w = Some ''sk-test''"
    by (simp add: sample_world_def)
  have msgs: "own_prop hello_request ''messages'' = hello_messages"
    by (simp add: hello_request_def)
  note shape = upstream_request_shape [of ?w hello_request]
  obtain c where c: "calls (server_post_chat ?w hello_request) = [c]"
    using s shape by (cases "calls (server_post_chat ?w hello_request)") auto
  obtain d where d: "calls (part_000_post_chat ?w hello_request) = [d]"
    using p shape by (cases "calls (part_000_post_chat ?w hello_request)") auto
  show ?thesis
    using shape c d key msgs by simp
qed

section \<open>Exceptions\<close>

text \<open>
  C7. Every exception raised while a POST /chat request is handled is caught, and the
  request is answered with status 500 and \<^verbatim>\<open>{error: "Server error", details: m}\<close>,
  \<^verbatim>\<open>m\<close> the message of the exception: whatever the \<^verbatim>\<open>try\<close> block raises, and in
  particular a request without a body, a network failure of the upstream call, a body
  that cannot be read or is not JSON, and (in \<^verbatim>\<open>server.js\<close>) a body that is the JSON
  \<^verbatim>\<open>null\<close>. Both handlers return a response for every request and environment.
\<close>

theorem exceptions_answered_500:
  "(fst (server_chat_try w b) = Inl err \<longrightarrow>
      response (server_post_chat w b) = server_error_500 err)
   \<and> (fst (part_000_chat_try w b) = Inl err \<longrightarrow>
      response (part_000_post_chat w b) = server_error_500 err)
   \<and> (nullish b \<longrightarrow>
      response (server_post_chat w b) = server_error_500 (type_error w b ''messages'')
      \<and> response (part_000_post_chat w b) = server_error_500 (type_error w b ''messages''))
   \<and> (map_of fs ''messages'' = Some (JArr ms) \<and> fetch_result w = Inl err \<longrightarrow>
      (truthy (env_value (OPENAI_API_KEY w)) \<longrightarrow>
         response (server_post_chat w (JObj fs)) = server_error_500 err)
      \<and> response (part_000_post_chat w (JObj fs)) = server_error_500 err)
   \<and> (map_of fs ''messages'' = Some (JArr ms) \<and> fetch_result w = Inr r
        \<and> json_body r = Inl err \<longrightarrow>
      (truthy (env_value (OPENAI_API_KEY w)) \<and> ok r \<longrightarrow>
         response (server_post_chat w (JObj fs)) = server_error_500 err)
      \<and> response (part_000_post_chat w (JObj fs)) = server_error_500 err)
   \<and> (map_of fs ''messages'' = Some (JArr ms) \<and> truthy (env_value (OPENAI_API_KEY w))
        \<and> fetch_result w = Inr r \<and> \<not> ok r \<and> text_body r = Inl err \<longrightarrow>
      response (server_post_chat w (JObj fs)) = server_error_500 err)
   \<and> (map_of fs ''messages'' = Some (JArr ms) \<and> truthy (env_value (OPENAI_API_KEY w))
        \<and> fetch_result w = Inr r \<and> ok r \<and> json_body r = Inr JNull \<longrightarrow>
      response (server_post_chat w (JObj fs)) = server_error_500 (type_error w JNull ''choices''))"
proof (intro conjI impI)
  assume "fst (server_chat_try w b) = Inl err"
  then show "response (server_post_chat w b) = server_error_500 err"
    by (cases "server_chat_try w b") (simp add: server_post_chat_def send_json_def)
next
  assume "fst (part_000_chat_try w b) = Inl err"
  then show "response (part_000_post_chat w b) = server_error_500 err"
    by (cases "part_000_chat_try w b") (simp add: part_000_post_chat_def send_json_def)
next
  assume "nullish b"
  then show "response (server_post_chat w b) = server_error_500 (type_error w b ''messages'')"
    by (simp add: chat_defs send_json_def)
next
  assume "nullish b"
  then show "response (part_000_post_chat w b) = server_error_500 (type_error w b ''messages'')"
    by (simp add: chat_defs send_json_def)
next
  assume "map_of fs ''messages'' = Some (JArr ms) \<and> fetch_result w = Inl err"
    and "truthy (env_value (OPENAI_API_KEY w))"
  then show "response (server_post_chat w (JObj fs)) = server_error_500 err"
    by (simp add: chat_defs send_json_def)
next
  assume "map_of fs ''messages'' = Some (JArr ms) \<and> fetch_result w = Inl err"
  then show "response (part_000_post_chat w (JObj fs)) = server_error_500 err"
    by (simp add: chat_defs send_json_def)
next
  assume "map_of fs ''messages'' = Some (JArr ms) \<and> fetch_result w = Inr r
            \<and> json_body r = Inl err"
    and "truthy (env_value (OPENAI_API_KEY w)) \<and> ok r"
  then show "response (server_post_chat w (JObj fs)) = server_error_500 err"
    by (simp add: chat_defs send_json_def)
next
  assume "map_of fs ''messages'' = Some (JArr ms) \<and> fetch_result w = Inr r
            \<and> json_body r = Inl err"
  then show "response (part_000_post_chat w (JObj fs)) = server_error_500 err"
    by (simp add: chat_defs send_json_def)
next
  assume "map_of fs ''messages'' = Some (JArr ms) \<and> truthy (env_value (OPENAI_API_KEY w))
            \<and> fetch_result w = Inr r \<and> \<not> ok r \<and> text_body r = Inl err"
  then show "response (server_post_chat w (JObj fs)) = server_error_500 err"
    by (simp add: chat_defs send_json_def)
next
  assume "map_of fs ''messages'' = Some (JArr ms) \<and> truthy (env_value (OPENAI_API_KEY w))
            \<and> fetch_result w = Inr r \<and> ok r \<and> json_body r = Inr JNull"
  then show "response (server_post_chat w (JObj fs))
               = server_error_500 (type_error w JNull ''choices'')"
    by (simp add: chat_defs send_json_def)
qed

theorem exceptions_answered_500_witness:
  "response (server_post_chat (sample_world (Some ''sk-test'') (Inl unreachable))
      hello_request) = server_error_500 unreachable
   \<and> response (part_000_post_chat (sample_world (Some ''sk-test'') (Inl unreachable))
      hello_request) = server_error_500 unreachable
   \<and> response (server_post_chat (sample_world (Some ''sk-test'') (Inr truncated))
      hello_request) =
       \<lparr>code = 500,
        payload = Json (JObj [(''error'', JStr ''Server error''),
                              (''details'', JStr ''Unexpected end of JSON input'')])\<rparr>
   \<and> response (part_000_post_chat (sample_world (Some ''sk-test'') (Inr truncated))
      hello_request) =
       \<lparr>code = 500,
        payload = Json (JObj [(''error'', JStr ''Server error''),
                              (''details'', JStr ''Unexpected end of JSON input'')])\<rparr>
   \<and> response (server_post_chat (sample_world (Some ''sk-test'') (Inr aborted))
      hello_request) =
       \<lparr>code = 500,
        payload = Json (JObj [(''error'', JStr ''Server error''),
                              (''details'', JStr ''Premature close'')])\<rparr>
   \<and> response (server_post_chat (sample_world (Some ''sk-test'') (Inr null_body))
      hello_request) =
       \<lparr>code = 500,
        payload = Json (JObj [(''error'', JStr ''Server error''),
                              (''details'', JStr ''Cannot read property choices'')])\<rparr>
   \<and> response (server_post_chat (sample_world (Some ''sk-test'') (Inr greeting))
      JUndefined) =
       \<lparr>code = 500,
        payload = Json (JObj [(''error'', JStr ''Server error''),
                              (''details'', JStr ''Cannot read property messages'')])\<rparr>
   \<and> response (part_000_post_chat (sample_world (Some ''sk-test'') (Inr greeting))
      JUndefined) =
       \<lparr>code = 500,
        payload = Json (JObj [(''error'', JStr ''Server error''),
                              (''details'', JStr ''Cannot read property messages'')])\<rparr>"
proof -
  let ?fs = "[(''messages'', hello_messages)]"
  let ?ms = "[JObj [(''role'', JStr ''user''), (''content'', JStr ''hi'')]]"
  have m: "map_of ?fs ''messages'' = Some (JArr ?ms)"
    by (simp add: hello_messages_def)
  have t: "fst (server_chat_try (sample_world (Some ''sk-test'') (Inl unreachable))
             hello_request) = Inl unreachable"
    by (simp add: server_chat_try_def sample_world_def hello_request_def hello_messages_def)
  have p: "fst (part_000_chat_try (sample_world (Some ''sk-test'') (Inl unreachable))
             hello_request) = Inl unreachable"
    by (simp add: part_000_chat_try_def sample_world_def hello_request_def hello_messages_def)
  have general:
    "response (server_post_chat (sample_world (Some ''sk-test'') (Inl unreachable))
       hello_request) = server_error_500 unreachable
     \<and> response (part_000_post_chat (sample_world (Some ''sk-test'') (Inl unreachable))
       hello_request) = server_error_500 unreachable"
    using t p
      exceptions_answered_500 [where w = "sample_world (Some ''sk-test'') (Inl unreachable)"
        and b = hello_request and err = unreachable and fs = ?fs and ms = ?ms]
    by blast
  have parse:
    "response (server_post_chat (sample_world (Some ''sk-test'') (Inr truncated))
       (JObj ?fs)) = server_error_500 (JsError ''SyntaxError'' ''Unexpected end of JSON input'')
     \<and> response (part_000_post_chat (sample_world (Some ''sk-test'') (Inr truncated))
       (JObj ?fs)) = server_error_500 (JsError ''SyntaxError'' ''Unexpected end of JSON input'')"
    using m
      exceptions_answered_500 [where w = "sample_world (Some ''sk-test'') (Inr truncated)"
        and err = "JsError ''SyntaxError'' ''Unexpected end of JSON input''"
        and fs = ?fs and ms = ?ms and r = truncated]
    by (simp add: sample_world_def truncated_def ok_def)
  have read:
    "response (server_post_chat (sample_world (Some ''sk-test'') (Inr aborted))
       (JObj ?fs)) = server_error_500 (JsError ''FetchError'' ''Premature close'')"
    using m
      exceptions_answered_500 [where w = "sample_world (Some ''sk-test'') (Inr aborted)"
        and err = "JsError ''FetchError'' ''Premature close''"
        and fs = ?fs and ms = ?ms and r = aborted]
    by (simp add: sample_world_def aborted_def ok_def)
  have null:
    "response (server_post_chat (sample_world (Some ''sk-test'') (Inr null_body))
       (JObj ?fs)) = server_error_500 (engine_type_error JNull ''choices'')"
    using m
      exceptions_answered_500 [where w = "sample_world (Some ''sk-test'') (Inr null_body)"
        and fs = ?fs and ms = ?ms and r = null_body]
    by (simp add: sample_world_def null_body_def ok_def)
  have nobody:
    "response (server_post_chat (sample_world (Some ''sk-test'') (Inr greeting)) JUndefined)
       = server_error_500 (engine_type_error JUndefined ''messages'')
     \<and> response (part_000_post_chat (sample_world (Some ''sk-test'') (Inr greeting)) JUndefined)
       = server_error_500 (engine_type_error JUndefined ''messages'')"
    using exceptions_answered_500 [where w = "sample_world (Some ''sk-test'') (Inr greeting)"
        and b = JUndefined]
    by (simp add: sample_world_def)
  show ?thesis
    using general parse read null nobody
    by (simp add: hello_request_def engine_type_error_def)
qed

section \<open>Validation of the messages value\<close>



section \<open>The credential and the response\<close>

text \<open>
  C9, as the code has it. The handlers do not build a response from the credential. Every
  response to POST /chat is one of: the fixed 400 payload; in \<^verbatim>\<open>server.js\<close> the fixed
  500 payload naming the missing variable, or 502 with the text of the upstream body as
  details; 200 with the reply read from the parsed upstream body or the placeholder; or
  500 with the message of an exception, raised by the engine, by \<^verbatim>\<open>fetch\<close> or by
  reading the upstream body. With the request, the upstream outcome and the rest of the
  environment fixed, the response of \<^verbatim>\<open>server.js\<close> is the same for any two values of
  \<^verbatim>\<open>OPENAI_API_KEY\<close> that are both configured or both not, and the response of
  \<^verbatim>\<open>part_000\<close> is the same for any two values at all. So the credential reaches the
  caller only inside an upstream body or an exception message that carries it, which the
  handlers pass on. GET / is answered with status 200 and the liveness message whatever
  the credential is, and makes no upstream call.
\<close>

theorem response_built_without_credential:
  "(truthy (env_value k1) = truthy (env_value k2) \<longrightarrow>
      response (server_post_chat (w\<lparr>OPENAI_API_KEY := k1\<rparr>) b) =
      response (server_post_chat (w\<lparr>OPENAI_API_KEY := k2\<rparr>) b))
   \<and> response (part_000_post_chat (w\<lparr>OPENAI_API_KEY := k1\<rparr>) b) =
     response (part_000_post_chat (w\<lparr>OPENAI_API_KEY := k2\<rparr>) b)
   \<and> (response (server_post_chat w b) =
         \<lparr>code = 400, payload = Json (JObj [(''error'', JStr ''Messages array missing'')])\<rparr>
      \<or> response (server_post_chat w b) =
         \<lparr>code = 500,
          payload = Json (JObj [(''error'', JStr ''Missing OPENAI_API_KEY in environment'')])\<rparr>
      \<or> (\<exists>r t. fetch_result w = Inr r \<and> text_body r = Inr t
            \<and> response (server_post_chat w b) =
               \<lparr>code = 502,
                payload = Json (JObj [(''error'', JStr ''OpenAI API error''),
                                      (''details'', JStr t)])\<rparr>)
      \<or> (\<exists>r data. fetch_result w = Inr r \<and> json_body r = Inr data
            \<and> response (server_post_chat w b) =
               \<lparr>code = 200, payload = Json (JObj [(''reply'', server_reply data)])\<rparr>)
      \<or> (\<exists>err. ((\<exists>v p. err = type_error w v p)
                 \<or> fetch_result w = Inl err
                 \<or> (\<exists>r. fetch_result w = Inr r
                        \<and> (text_body r = Inl err \<or> json_body r = Inl err)))
            \<and> response (server_post_chat w b) = server_error_500 err))
   \<and> (response (part_000_post_chat w b) =
         \<lparr>code = 400, payload = Json (JObj [(''error'', JStr ''Messages array missing'')])\<rparr>
      \<or> (\<exists>r data. fetch_result w = Inr r \<and> json_body r = Inr data
            \<and> response (part_000_post_chat w b) =
               \<lparr>code = 200, payload = Json (JObj [(''reply'', part_000_reply data)])\<rparr>)
      \<or> (\<exists>err. ((\<exists>v p. err = type_error w v p)
                 \<or> fetch_result w = Inl err
                 \<or> (\<exists>r. fetch_result w = Inr r \<and> json_body r = Inl err))
            \<and> response (part_000_post_chat w b) = server_error_500 err))
   \<and> server_get_root w =
       \<lparr>response = \<lparr>code = 200, payload = Text ''Chatbot backend is running.''\<rparr>, calls = []\<rparr>
   \<and> part_000_get_root w =
       \<lparr>response = \<lparr>code = 200, payload = Text ''Chatbot backend is running.''\<rparr>, calls = []\<rparr>"
proof (intro conjI)
  show "truthy (env_value k1) = truthy (env_value k2) \<longrightarrow>
      response (server_post_chat (w\<lparr>OPENAI_API_KEY := k1\<rparr>) b) =
      response (server_post_chat (w\<lparr>OPENAI_API_KEY := k2\<rparr>) b)"
    by (simp add: chat_defs Let_def split: sum.splits)
  show "response (part_000_post_chat (w\<lparr>OPENAI_API_KEY := k1\<rparr>) b) =
     response (part_000_post_chat (w\<lparr>OPENAI_API_KEY := k2\<rparr>) b)"
    by (simp add: chat_defs Let_def split: sum.splits)
  show "response (server_post_chat w b) =
         \<lparr>code = 400, payload = Json (JObj [(''error'', JStr ''Messages array missing'')])\<rparr>
      \<or> response (server_post_chat w b) =
         \<lparr>code = 500,
          payload = Json (JObj [(''error'', JStr ''Missing OPENAI_API_KEY in environment'')])\<rparr>
      \<or> (\<exists>r t. fetch_result w = Inr r \<and> text_body r = Inr t
            \<and> response (server_post_chat w b) =
               \<lparr>code = 502,
                payload = Json (JObj [(''error'', JStr ''OpenAI API error''),
                                      (''details'', JStr t)])\<rparr>)
      \<or> (\<exists>r data. fetch_result w = Inr r \<and> json_body r = Inr data
            \<and> response (server_post_chat w b) =
               \<lparr>code = 200, payload = Json (JObj [(''reply'', server_reply data)])\<rparr>)
      \<or> (\<exists>err. ((\<exists>v p. err = type_error w v p)
                 \<or> fetch_result w = Inl err
                 \<or> (\<exists>r. fetch_result w = Inr r
                        \<and> (text_body r = Inl err \<or> json_body r = Inl err)))
            \<and> response (server_post_chat w b) = server_error_500 err)"
    by (auto simp add: chat_defs send_json_def Let_def split: sum.splits)
  show "response (part_000_post_chat w b) =
         \<lparr>code = 400, payload = Json (JObj [(''error'', JStr ''Messages array missing'')])\<rparr>
      \<or> (\<exists>r data. fetch_result w = Inr r \<and> json_body r = Inr data
            \<and> response (part_000_post_chat w b) =
               \<lparr>code = 200, payload = Json (JObj [(''reply'', part_000_reply data)])\<rparr>)
      \<or> (\<exists>err. ((\<exists>v p. err = type_error w v p)
                 \<or> fetch_result w = Inl err
                 \<or> (\<exists>r. fetch_result w = Inr r \<and> json_body r = Inl err))
            \<and> response (part_000_post_chat w b) = server_error_500 err)"
    by (auto simp add: chat_defs send_json_def Let_def split: sum.splits)
  show "server_get_root w =
       \<lparr>response = \<lparr>code = 200, payload = Text ''Chatbot backend is running.''\<rparr>, calls = []\<rparr>"
    by (simp add: server_get_root_def)
  show "part_000_get_root w =
       \<lparr>response = \<lparr>code = 200, payload = Text ''Chatbot backend is running.''\<rparr>, calls = []\<rparr>"
    by (simp add: part_000_get_root_def)
qed

theorem response_built_without_credential_witness:
  "response (server_post_chat (sample_world (Some ''sk-one'') (Inr rate_limited)) hello_request)
     = response (server_post_chat (sample_world (Some ''sk-two'') (Inr rate_limited))
         hello_request)
   \<and> response (part_000_post_chat (sample_world None (Inr greeting)) hello_request)
     = response (part_000_post_chat (sample_world (Some ''sk-two'') (Inr greeting))
         hello_request)
   \<and> response (server_get_root (sample_world None (Inl unreachable))) =
       \<lparr>code = 200, payload = Text ''Chatbot backend is running.''\<rparr>
   \<and> response (part_000_get_root (sample_world None (Inl unreachable))) =
       \<lparr>code = 200, payload = Text ''Chatbot backend is running.''\<rparr>"
proof -
  have u: "(sample_world k0 f)\<lparr>OPENAI_API_KEY := k\<rparr> = sample_world k f" for k0 k f
    by (simp add: sample_world_def)
  have c: "truthy (env_value (Some ''sk-one'')) = truthy (env_value (Some ''sk-two''))"
    by simp
  have one: "response (server_post_chat (sample_world (Some ''sk-one'') (Inr rate_limited))
               hello_request)
     = response (server_post_chat (sample_world (Some ''sk-two'') (Inr rate_limited))
         hello_request)"
    using c response_built_without_credential [where w = "sample_world None (Inr rate_limited)"
        and ?k1.0 = "Some ''sk-one''" and ?k2.0 = "Some ''sk-two''" and b = hello_request]
    by (simp add: u)
  have two: "response (part_000_post_chat (sample_world None (Inr greeting)) hello_request)
     = response (part_000_post_chat (sample_world (Some ''sk-two'') (Inr greeting))
         hello_request)"
    using response_built_without_credential [where w = "sample_world None (Inr greeting)"
        and ?k1.0 = None and ?k2.0 = "Some ''sk-two''" and b = hello_request]
    by (simp add: u)
  have three: "server_get_root (sample_world None (Inl unreachable)) =
       \<lparr>response = \<lparr>code = 200, payload = Text ''Chatbot backend is running.''\<rparr>, calls = []\<rparr>
     \<and> part_000_get_root (sample_world None (Inl unreachable)) =
       \<lparr>response = \<lparr>code = 200, payload = Text ''Chatbot backend is running.''\<rparr>, calls = []\<rparr>"
    using response_built_without_credential [where w = "sample_world None (Inl unreachable)"]
    by blast
  show ?thesis
    using one two three by simp
qed

text \<open>
  C9 as stated fails when the upstream body carries the credential: the upstream receives
  the key in the \<^verbatim>\<open>Authorization\<close> header and names it in its 401 body, and
  \<^verbatim>\<open>server.js\<close> passes that body to the caller as the details of its 502.
\<close>

theorem upstream_echo_counterexample:
  "OPENAI_API_KEY (sample_world (Some ''sk-test'') (Inr key_echo)) = Some ''sk-test''
   \<and> calls (server_post_chat (sample_world (Some ''sk-test'') (Inr key_echo)) hello_request) =
       [\<lparr>url = ''https://api.openai.com/v1/chat/completions'',
         http_method = ''POST'',
         headers = [(''Content-Type'', ''application/json''),
                    (''Authorization'', ''Bearer '' @ ''sk-test'')],
         body = JObj [(''model'', JStr ''gpt-4o-mini''),
                      (''messages'', hello_messages),
                      (''max_tokens'', JNum (Fin 512))]\<rparr>]
   \<and> response (server_post_chat (sample_world (Some ''sk-test'') (Inr key_echo))
        hello_request) =
       \<lparr>code = 502,
        payload = Json (JObj [(''error'', JStr ''OpenAI API error''),
          (''details'',
           JStr (''{\"error\":{\"message\":\"Incorrect API key provided: '' @ ''sk-test''
                 @ ''\"}}''))])\<rparr>"
  by (simp add: chat_defs sample_world_def hello_request_def hello_messages_def
        key_echo_def ok_def server_fetch_call_def send_json_def)

end
